theory Spec2Isabelle
  imports Complex_Main "HOL-Library.Sublist"
begin

chapter \<open>MediTrack: the drug interaction services and their clients\<close>

text \<open>
  The development embeds the JavaScript services of the web client
  (\<open>ApiService\<close>, \<open>AIService\<close>, \<open>DrugInteractionService\<close>), the handler of the
  prescription checker page, and the name normalisation of the mobile client's home
  tab. Each function is translated from its source; what a function throws is a value of
  a sum type, what it reads from the network is an argument. The interaction engine
  behind the clients is not among the sources; a later chapter models it from the
  specification.
\<close>

section \<open>JavaScript strings and numbers\<close>

text \<open>
  A string is a list of 8-bit characters holding the text in UTF-8. \<open>toLowerCase\<close> maps
  the ASCII letters \<open>A\<close> to \<open>Z\<close> to lower case and leaves every other character as
  it is. It stands for \<open>String.prototype.toLowerCase\<close> only where the result is matched
  against words of ASCII letters (the severity words of \<open>DrugInteractionService\<close>,
  the medication names of \<open>AIService\<close>), where the two agree; the functions that
  compare arbitrary names with each other take the built-in as an argument.
\<close>

definition lower_char :: "char \<Rightarrow> char" where
  "lower_char c =
     (case map_of (zip ''ABCDEFGHIJKLMNOPQRSTUVWXYZ'' ''abcdefghijklmnopqrstuvwxyz'') c of
        Some l \<Rightarrow> l
      | None \<Rightarrow> c)"

definition toLowerCase :: "string \<Rightarrow> string" where
  "toLowerCase s = map lower_char s"

text \<open>\<open>s.includes(t)\<close>: the string \<open>t\<close> occurs in \<open>s\<close> as a contiguous run.\<close>

fun str_includes :: "string \<Rightarrow> string \<Rightarrow> bool" where
  "str_includes [] t = (t = [])"
| "str_includes (c # cs) t = (prefix t (c # cs) \<or> str_includes cs t)"

text \<open>The decimal digits of a natural number, as a template literal prints a length or
  a status code.\<close>

definition digit_char :: "nat \<Rightarrow> char" where
  "digit_char d = ''0123456789'' ! d"

fun string_of_nat :: "nat \<Rightarrow> string" where
  "string_of_nat n =
     (if n < 10 then [digit_char n] else string_of_nat (n div 10) @ [digit_char (n mod 10)])"

declare string_of_nat.simps [simp del]

section \<open>AIService\<close>

definition commonMedications :: "string list" where
  "commonMedications =
     [''paracetamol'', ''ibuprofen'', ''aspirin'', ''clopidogrel'',
      ''metformin'', ''lisinopril'', ''atorvastatin'', ''amlodipine'']"

text \<open>\<open>extractMedicationsFromMessage\<close>: the \<open>forEach\<close> over the fixed list pushes a
  name onto \<open>foundMedications\<close> when the lower-cased message includes it.\<close>

definition extractMedicationsFromMessage :: "string \<Rightarrow> string list" where
  "extractMedicationsFromMessage message =
     (let lowerMessage = toLowerCase message
      in foldl (\<lambda>foundMedications med.
                  if str_includes lowerMessage med then foundMedications @ [med]
                  else foundMedications)
           [] commonMedications)"

text \<open>A name occurs in a message case-insensitively when some contiguous part of the
  message is the name up to letter case.\<close>

definition occurs_ci :: "string \<Rightarrow> string \<Rightarrow> bool" where
  "occurs_ci med message =
     (\<exists>before part after. message = before @ part @ after \<and> toLowerCase part = med)"

section \<open>ApiService\<close>

text \<open>
  A parsed JSON body. A number carries the value of the parsed double; an object lists
  its members in document order (on a repeated key \<open>JSON.parse\<close> keeps the last).
\<close>

datatype json =
    JNull
  | JBool bool
  | JNumber real
  | JString string
  | JArray "json list"
  | JObject "(string \<times> json) list"

text \<open>A \<open>fetch\<close> response: \<open>body\<close> is what \<open>response.json()\<close> resolves to, \<open>None\<close> when
  the body does not parse as JSON and the promise rejects.\<close>

record response =
  ok :: bool
  status :: nat
  body :: "json option"

datatype thrown = Error string | SyntaxError | TypeError

text \<open>JavaScript truthiness of a parsed value.\<close>

fun truthy :: "json \<Rightarrow> bool" where
  "truthy JNull = False"
| "truthy (JBool b) = b"
| "truthy (JNumber x) = (x \<noteq> 0)"
| "truthy (JString s) = (s \<noteq> [])"
| "truthy (JArray xs) = True"
| "truthy (JObject kvs) = True"

text \<open>\<open>error.detail\<close>: reading a property of \<open>null\<close> throws a TypeError; an object
  gives its member, or \<open>undefined\<close> (\<open>None\<close>) when it has none; a boolean, a number, a
  string and an array have no property of that name.\<close>

fun get_detail :: "json \<Rightarrow> thrown + json option" where
  "get_detail JNull = Inl TypeError"
| "get_detail (JObject kvs) = Inr (map_of (rev kvs) ''detail'')"
| "get_detail (JBool b) = Inr None"
| "get_detail (JNumber x) = Inr None"
| "get_detail (JString s) = Inr None"
| "get_detail (JArray xs) = Inr None"

text \<open>\<open>new Error(v)\<close> stores the string form of \<open>v\<close>: \<open>v\<close> itself when it is a string,
  and otherwise what JavaScript's \<open>ToString\<close> prints, taken as the parameter
  \<open>to_string\<close>.\<close>

definition message_of :: "(json \<Rightarrow> string) \<Rightarrow> json \<Rightarrow> string" where
  "message_of to_string v = (case v of JString s \<Rightarrow> s | _ \<Rightarrow> to_string v)"

text \<open>
  \<open>request\<close>, from the outcome of \<open>fetch\<close> on (\<open>Inl\<close> when \<open>fetch\<close> itself rejects). The
  \<open>catch\<close> block logs and rethrows, so whatever is thrown inside \<open>try\<close> is what the
  caller sees.
\<close>

definition request :: "(json \<Rightarrow> string) \<Rightarrow> thrown + response \<Rightarrow> thrown + json" where
  "request to_string fetched =
     (case fetched of
        Inl e \<Rightarrow> Inl e
      | Inr response \<Rightarrow>
          if \<not> ok response then
            (let error = (case body response of
                            Some v \<Rightarrow> v
                          | None \<Rightarrow> JObject [(''detail'', JString ''Request failed'')])
             in case get_detail error of
                  Inl t \<Rightarrow> Inl t
                | Inr detail \<Rightarrow>
                    Inl (Error
                      (case detail of
                         Some d \<Rightarrow>
                           if truthy d then message_of to_string d
                           else ''HTTP error! status: '' @ string_of_nat (status response)
                       | None \<Rightarrow> ''HTTP error! status: '' @ string_of_nat (status response))))
          else (case body response of Some v \<Rightarrow> Inr v | None \<Rightarrow> Inl SyntaxError))"

section \<open>DrugInteractionService\<close>

text \<open>An interaction of a check response. \<open>severity\<close> is \<open>None\<close> when the member is
  missing or \<open>null\<close>.\<close>

record interaction =
  drug1_name :: string
  drug2_name :: string
  severity :: "string option"
  description :: string

text \<open>\<open>getRiskLevel\<close>. The argument is \<open>None\<close> when the caller passes \<open>undefined\<close> or
  \<open>null\<close>. \<open>interaction.severity?.toLowerCase() || 'low'\<close> is \<open>'low'\<close> for a missing
  and for an empty severity.\<close>

definition getRiskLevel :: "interaction list option \<Rightarrow> string" where
  "getRiskLevel interactions =
     (case interactions of
        None \<Rightarrow> ''low''
      | Some xs \<Rightarrow>
          if length xs = 0 then ''low''
          else
            let severities =
                  map (\<lambda>interaction.
                         case severity interaction of
                           None \<Rightarrow> ''low''
                         | Some s \<Rightarrow> if toLowerCase s = [] then ''low'' else toLowerCase s) xs
            in if ''high'' \<in> set severities \<or> ''severe'' \<in> set severities then ''high''
               else if ''moderate'' \<in> set severities \<or> ''medium'' \<in> set severities then ''medium''
               else ''low'')"

text \<open>\<open>['high', 'severe'].includes(i.severity?.toLowerCase())\<close> and its sibling: a
  missing severity is \<open>undefined\<close>, which no list of strings includes.\<close>

definition severity_in :: "string list \<Rightarrow> interaction \<Rightarrow> bool" where
  "severity_in names i =
     (case severity i of None \<Rightarrow> False | Some s \<Rightarrow> toLowerCase s \<in> set names)"

text \<open>The two signs the messages start with, in UTF-8: the warning sign (U+26A0 with the
  variation selector U+FE0F) and the high voltage sign (U+26A1).\<close>

definition warning_sign :: string where
  "warning_sign = [CHR 0xE2, CHR 0x9A, CHR 0xA0, CHR 0xEF, CHR 0xB8, CHR 0x8F]"

definition high_voltage_sign :: string where
  "high_voltage_sign = [CHR 0xE2, CHR 0x9A, CHR 0xA1]"

definition formatInteractionMessage :: "interaction list option \<Rightarrow> string" where
  "formatInteractionMessage interactions =
     (case interactions of
        None \<Rightarrow> ''No significant drug interactions found.''
      | Some xs \<Rightarrow>
          if length xs = 0 then ''No significant drug interactions found.''
          else
            let highRisk = filter (severity_in [''high'', ''severe'']) xs;
                mediumRisk = filter (severity_in [''moderate'', ''medium'']) xs;
                message = [];
                message = (if length highRisk > 0
                           then message @ warning_sign @ '' '' @ string_of_nat (length highRisk)
                                  @ '' high-risk interaction(s) detected. ''
                           else message);
                message = (if length mediumRisk > 0
                           then message @ high_voltage_sign @ '' '' @ string_of_nat (length mediumRisk)
                                  @ '' moderate-risk interaction(s) found. ''
                           else message)
            in if message \<noteq> [] then message
               else ''Some interactions detected. Please review carefully.'')"

section \<open>PrescriptionChecker\<close>

text \<open>An entry of the \<open>drugs\<close> state is \<open>null\<close> (\<open>None\<close>) or the selected option.\<close>

record drug_option =
  option_value :: string
  option_label :: string

record toast =
  toast_message :: string
  toast_type :: string

record interaction_response =
  response_interactions :: "interaction list option"

record ai_response =
  explanation :: "string option"

record checker_state =
  drugs :: "drug_option option list"
  alert :: string
  isLoading :: bool
  interactions :: "interaction list"
  aiExplanation :: "string option"
  toast :: "toast option"

text \<open>\<open>drugs.filter(drug => drug?.value).map(drug => drug.value)\<close>.\<close>

definition selectedDrugs_of :: "drug_option option list \<Rightarrow> string list" where
  "selectedDrugs_of ds =
     map (\<lambda>drug. case drug of Some d \<Rightarrow> option_value d | None \<Rightarrow> [])
       (filter (\<lambda>drug. case drug of Some d \<Rightarrow> option_value d \<noteq> [] | None \<Rightarrow> False) ds)"

text \<open>The \<open>catch\<close> block of \<open>handleCheck\<close>, from the message of the error caught.\<close>

definition handleCheck_catch :: "string \<Rightarrow> checker_state \<Rightarrow> checker_state" where
  "handleCheck_catch error_message st =
     st\<lparr>alert := ''Failed to check interactions. Please try again.'',
        toast := Some \<lparr>toast_message = error_message, toast_type = ''error''\<rparr>\<rparr>"

text \<open>
  \<open>handleCheck\<close>, as a function of the page's state. The two services it awaits are
  arguments: each maps the medication list sent to the response received, or to the
  message of the \<open>Error\<close> the service throws.
\<close>

definition handleCheck ::
  "(string list \<Rightarrow> string + interaction_response) \<Rightarrow> (string list \<Rightarrow> string + ai_response) \<Rightarrow>
   checker_state \<Rightarrow> checker_state" where
  "handleCheck checkInteractions explainMedicationRisks st =
     (let selectedDrugs = selectedDrugs_of (drugs st)
      in if length selectedDrugs < 2 then
           st\<lparr>toast := Some \<lparr>toast_message = ''Please select at least 2 medications to check interactions'',
                             toast_type = ''warning''\<rparr>\<rparr>
         else
           let st1 = st\<lparr>isLoading := True, alert := [], interactions := [], aiExplanation := Some []\<rparr>;
               st2 =
                 (case checkInteractions selectedDrugs of
                    Inl error_message \<Rightarrow> handleCheck_catch error_message st1
                  | Inr interactionResponse \<Rightarrow>
                      let found = response_interactions interactionResponse;
                          st3 = st1\<lparr>interactions := (case found of Some xs \<Rightarrow> xs | None \<Rightarrow> [])\<rparr>
                      in case explainMedicationRisks selectedDrugs of
                           Inl error_message \<Rightarrow> handleCheck_catch error_message st3
                         | Inr aiResponse \<Rightarrow>
                             let riskLevel = getRiskLevel found;
                                 riskMessage = formatInteractionMessage found
                             in st3\<lparr>aiExplanation := explanation aiResponse,
                                    alert := riskMessage,
                                    toast := Some
                                      \<lparr>toast_message =
                                         ''Analysis complete! Found ''
                                         @ string_of_nat (case found of Some xs \<Rightarrow> length xs | None \<Rightarrow> 0)
                                         @ '' interactions.'',
                                       toast_type =
                                         (if riskLevel = ''high'' then ''error''
                                          else if riskLevel = ''medium'' then ''warning''
                                          else ''success'')\<rparr>\<rparr>)
           in st2\<lparr>isLoading := False\<rparr>)"

section \<open>Mobile client: AddManually and the home tab\<close>

text \<open>
  The mobile client compares names in any script with each other, so the two string
  built-ins it calls, \<open>String.prototype.trim\<close> and
  \<open>String.prototype.toLowerCase\<close>, are the arguments \<open>trim\<close> and \<open>lower\<close> of its
  functions.
\<close>

text \<open>\<open>AddManually.handleCheck\<close> submits the inputs that are not blank.\<close>

definition AddManually_handleCheck :: "(string \<Rightarrow> string) \<Rightarrow> string list \<Rightarrow> string list" where
  "AddManually_handleCheck trim inputs = filter (\<lambda>name. trim name \<noteq> []) inputs"

text \<open>An element of a medication array: a string, or an object whose \<open>name\<close> may be
  missing (\<open>MedObject None\<close> also stands for \<open>null\<close> and \<open>undefined\<close>).\<close>

datatype med_item = MedName string | MedObject "string option"

definition item_name :: "med_item \<Rightarrow> string" where
  "item_name x = (case x of MedName s \<Rightarrow> s | MedObject n \<Rightarrow> (case n of Some s \<Rightarrow> s | None \<Rightarrow> []))"

text \<open>A JavaScript \<open>Map\<close> as the list of its entries in insertion order: \<open>set\<close> on a key
  the map holds replaces the value where the key stands, \<open>set\<close> on a new key appends.\<close>

fun Map_set :: "('k \<times> 'v) list \<Rightarrow> 'k \<Rightarrow> 'v \<Rightarrow> ('k \<times> 'v) list" where
  "Map_set [] k v = [(k, v)]"
| "Map_set ((k', v') # m) k v = (if k' = k then (k', v) # m else (k', v') # Map_set m k v)"

definition new_Map :: "('k \<times> 'v) list \<Rightarrow> ('k \<times> 'v) list" where
  "new_Map entries = foldl (\<lambda>m (k, v). Map_set m k v) [] entries"

definition Map_values :: "('k \<times> 'v) list \<Rightarrow> 'v list" where
  "Map_values m = map snd m"

text \<open>The names of an array after \<open>.map(name).map(trim).filter(Boolean)\<close>; the argument is
  \<open>None\<close> when it is not an array.\<close>

definition cleaned :: "(string \<Rightarrow> string) \<Rightarrow> med_item list option \<Rightarrow> string list" where
  "cleaned trim medications =
     filter (\<lambda>s. s \<noteq> [])
       (map trim (map item_name (case medications of Some arr \<Rightarrow> arr | None \<Rightarrow> [])))"

definition normalizeNames ::
  "(string \<Rightarrow> string) \<Rightarrow> (string \<Rightarrow> string) \<Rightarrow> med_item list option \<Rightarrow> string list" where
  "normalizeNames trim lower arr =
     Map_values (new_Map (map (\<lambda>v. (lower v, v)) (cleaned trim arr)))"

text \<open>\<open>ConfirmResult\<close>: \<open>medsToUse\<close> is the list sent as \<open>medications\<close> to
  \<open>/api/interactions/check\<close>; \<open>fetchInteractionData\<close> sends nothing when it is empty.\<close>

definition medsToUse ::
  "(string \<Rightarrow> string) \<Rightarrow> (string \<Rightarrow> string) \<Rightarrow> med_item list option \<Rightarrow> string list" where
  "medsToUse trim lower medications =
     Map_values (new_Map (map (\<lambda>v. (lower v, v)) (cleaned trim medications)))"

definition fetchInteractionData_body ::
  "(string \<Rightarrow> string) \<Rightarrow> (string \<Rightarrow> string) \<Rightarrow> med_item list option \<Rightarrow> string list option" where
  "fetchInteractionData_body trim lower medications =
     (if length (medsToUse trim lower medications) = 0 then None
      else Some (medsToUse trim lower medications))"

text \<open>Keeping each element where it first occurs: an element is kept when it has not
  been seen before.\<close>

fun unseen :: "'a set \<Rightarrow> 'a list \<Rightarrow> 'a list" where
  "unseen seen [] = []"
| "unseen seen (x # xs) = (if x \<in> seen then unseen seen xs else x # unseen (insert x seen) xs)"

definition first_occurrences :: "'a list \<Rightarrow> 'a list" where
  "first_occurrences xs = unseen {} xs"

chapter \<open>The interaction engine of the specification\<close>

text \<open>
  Modelled from the spec: the Drug-Drug Interaction Resolution Engine (drug identity
  resolver, feature extractor, curated store, classifier, interaction cache and
  combination resolver). Its implementation, the backend behind
  \<open>/api/interactions\<close> and the DDI service behind \<open>/predict\<close>, is not among the
  sources; the definitions of this chapter follow sections 3, 4 and 7 of the
  specification.
\<close>

text \<open>Modelled from the spec: the Drug record of section 3. Its fingerprint is what the
  extractor computes from the structural notation.\<close>

record drug =
  drug_id :: nat
  canonical_name :: string
  aliases :: "string set"
  structure_notation :: string

text \<open>Modelled from the spec: the error taxonomy of section 7.\<close>

datatype engine_error =
    UnknownDrugError string
  | InvalidStructureError
  | ModelUnavailableError
  | CacheBackendError
  | BatchSizeExceededError

text \<open>Modelled from the spec: the severities and their total order
  \<open>None < Minor < Moderate < Major\<close>.\<close>

datatype severity_level = SevNone | Minor | Moderate | Major

text \<open>Modelled from the spec: the place of a severity in that order, and the greater
  of two severities.\<close>

fun severity_rank :: "severity_level \<Rightarrow> nat" where
  "severity_rank SevNone = 0"
| "severity_rank Minor = 1"
| "severity_rank Moderate = 2"
| "severity_rank Major = 3"

definition max_severity :: "severity_level \<Rightarrow> severity_level \<Rightarrow> severity_level" where
  "max_severity a b = (if severity_rank a < severity_rank b then b else a)"

text \<open>Modelled from the spec: the source of a record, a tagged variant.\<close>

datatype record_source = Curated | Predicted

text \<open>Modelled from the spec: the InteractionKey, the two drug ids in their fixed order
  (the hash of the ordered pair is taken to be the pair).\<close>

definition interaction_key :: "nat \<Rightarrow> nat \<Rightarrow> nat \<times> nat" where
  "interaction_key idA idB = (min idA idB, max idA idB)"

text \<open>Modelled from the spec: the InteractionRecord of section 3. \<open>expires_at\<close> is
  \<open>None\<close> for a curated record, which does not expire.\<close>

record interaction_record =
  record_key :: "nat \<times> nat"
  source :: record_source
  record_severity :: severity_level
  record_description :: string
  labels :: "(nat \<times> real) list"
  computed_at :: nat
  expires_at :: "nat option"

text \<open>
  Modelled from the spec: what the engine is configured with. The resolver, the
  extractor and the network are the components of sections 4.1 to 4.3, taken as
  functions; \<open>drug_table\<close> gives the canonical record of an id; \<open>curated\<close> is the
  curated store, keyed by a pair of ids as stored; \<open>severity_table\<close> is the threshold
  table of section 4.3, which the specification leaves to the implementer;
  \<open>fold_case\<close> is the case folding names are compared under; \<open>max_batch_pairs\<close> is the
  greatest number of pairs one batch call may hold (section 5); \<open>cache_reachable\<close> and
  \<open>cache_fallback\<close> say whether the cache store answers and, when it does not, whether
  the engine may compute without it (section 7).
\<close>

record engine =
  resolve :: "string \<Rightarrow> engine_error + drug"
  drug_table :: "nat \<Rightarrow> drug"
  extract_fingerprint :: "string \<Rightarrow> engine_error + bool list"
  network :: "bool list \<Rightarrow> real list"
  curated :: "nat \<times> nat \<Rightarrow> (severity_level \<times> string) option"
  severity_table :: "(nat \<times> real) list \<Rightarrow> severity_level"
  describe_labels :: "(nat \<times> real) list \<Rightarrow> string"
  render_summary :: "(severity_level \<Rightarrow> nat) \<Rightarrow> string list \<Rightarrow> string"
  cutoff :: real
  top_k :: nat
  ttl :: nat
  model_loaded :: bool
  fold_case :: "string \<Rightarrow> string"
  max_batch_pairs :: nat
  cache_reachable :: bool
  cache_fallback :: bool

text \<open>Modelled from the spec: the ranked list of section 4.3, by descending
  probability; the sort is stable, so among equal probabilities the lower label index
  comes first.\<close>

definition ranked :: "real list \<Rightarrow> (nat \<times> real) list" where
  "ranked probabilities = sort_key (\<lambda>(label, p). - p) (zip [0..<length probabilities] probabilities)"

text \<open>Modelled from the spec: \<open>predict\<close> of section 4.3. The pair is ordered by drug id,
  lower id first, before the two fingerprints are concatenated into the input of the
  network; a structure that does not parse fails the prediction.\<close>

definition predict :: "engine \<Rightarrow> nat \<Rightarrow> nat \<Rightarrow> nat \<Rightarrow> engine_error + (nat \<times> real) list" where
  "predict env idA idB k =
     (let lo = min idA idB; hi = max idA idB
      in case extract_fingerprint env (structure_notation (drug_table env lo)) of
           Inl e \<Rightarrow> Inl e
         | Inr fpLo \<Rightarrow>
             (case extract_fingerprint env (structure_notation (drug_table env hi)) of
                Inl e \<Rightarrow> Inl e
              | Inr fpHi \<Rightarrow> Inr (take k (ranked (network env (fpLo @ fpHi))))))"

text \<open>Modelled from the spec: \<open>predict_batch\<close> of section 4.3 behind the boundary of
  sections 5 and 7. A batch of more pairs than the configured maximum is rejected whole,
  before any work, with \<open>BatchSizeExceededError\<close>; any other batch gives one result or
  error for each pair, in the order of the input.\<close>

definition predict_batch ::
  "engine \<Rightarrow> (nat \<times> nat) list \<Rightarrow> nat \<Rightarrow>
   engine_error + (engine_error + (nat \<times> real) list) list" where
  "predict_batch env pairs k =
     (if max_batch_pairs env < length pairs then Inl BatchSizeExceededError
      else Inr (map (\<lambda>(idA, idB). predict env idA idB k) pairs))"

text \<open>Modelled from the spec: the extractor fails in one way only, with
  \<open>InvalidStructureError\<close> (section 4.1).\<close>

definition extractor_sound :: "engine \<Rightarrow> bool" where
  "extractor_sound env =
     (\<forall>structure e. extract_fingerprint env structure = Inl e \<longrightarrow> e = InvalidStructureError)"

text \<open>Modelled from the spec: the severity of a predicted record, from the labels at or
  above the cutoff; \<open>None\<close> when no label is significant.\<close>

definition predicted_severity :: "engine \<Rightarrow> (nat \<times> real) list \<Rightarrow> severity_level" where
  "predicted_severity env ls =
     (let significant = filter (\<lambda>(label, p). cutoff env \<le> p) ls
      in if significant = [] then SevNone else severity_table env significant)"

text \<open>Modelled from the spec: the curated lookup of section 4.5, an exact match by the
  pair's ids in both orders.\<close>

definition curated_lookup :: "engine \<Rightarrow> nat \<times> nat \<Rightarrow> (severity_level \<times> string) option" where
  "curated_lookup env key =
     (case curated env (fst key, snd key) of
        Some found \<Rightarrow> Some found
      | None \<Rightarrow> curated env (snd key, fst key))"

text \<open>Modelled from the spec: a cached record is served while it is curated or its
  \<open>expires_at\<close> is in the future.\<close>

definition fresh :: "nat \<Rightarrow> interaction_record \<Rightarrow> bool" where
  "fresh now r = (case expires_at r of None \<Rightarrow> True | Some t \<Rightarrow> now < t)"

text \<open>Modelled from the spec: the miss path of section 4.5. The curated store is asked
  first and its record stored without expiry; otherwise the classifier is run and its
  record stored with the configured time to live; a failed prediction stores nothing.\<close>

definition compute ::
  "engine \<Rightarrow> (nat \<times> nat \<rightharpoonup> interaction_record) \<Rightarrow> nat \<Rightarrow> nat \<times> nat \<Rightarrow>
   (engine_error + interaction_record) \<times> (nat \<times> nat \<rightharpoonup> interaction_record)" where
  "compute env cache now key =
     (case curated_lookup env key of
        Some (sev, remark) \<Rightarrow>
          (let r = \<lparr>record_key = key, source = Curated, record_severity = sev,
                    record_description = remark, labels = [], computed_at = now,
                    expires_at = None\<rparr>
           in (Inr r, cache(key \<mapsto> r)))
      | None \<Rightarrow>
          (case predict env (fst key) (snd key) (top_k env) of
             Inl e \<Rightarrow> (Inl e, cache)
           | Inr ls \<Rightarrow>
               (let r = \<lparr>record_key = key, source = Predicted,
                         record_severity = predicted_severity env ls,
                         record_description = describe_labels env ls, labels = ls,
                         computed_at = now, expires_at = Some (now + ttl env)\<rparr>
                in (Inr r, cache(key \<mapsto> r)))))"

text \<open>Modelled from the spec: \<open>get_or_compute\<close> of section 4.5.\<close>

definition get_or_compute ::
  "engine \<Rightarrow> (nat \<times> nat \<rightharpoonup> interaction_record) \<Rightarrow> nat \<Rightarrow> nat \<times> nat \<Rightarrow>
   (engine_error + interaction_record) \<times> (nat \<times> nat \<rightharpoonup> interaction_record)" where
  "get_or_compute env cache now key =
     (case cache key of
        Some r \<Rightarrow> if fresh now r then (Inr r, cache) else compute env cache now key
      | None \<Rightarrow> compute env cache now key)"

text \<open>Modelled from the spec: resolving the pair of two drugs, given in either order,
  through the cache under its InteractionKey.\<close>

definition resolve_pair ::
  "engine \<Rightarrow> (nat \<times> nat \<rightharpoonup> interaction_record) \<Rightarrow> nat \<Rightarrow> nat \<Rightarrow> nat \<Rightarrow>
   (engine_error + interaction_record) \<times> (nat \<times> nat \<rightharpoonup> interaction_record)" where
  "resolve_pair env cache now idA idB = get_or_compute env cache now (interaction_key idA idB)"

text \<open>Modelled from the spec: the cache-store failure of section 7. When the store does
  not answer, the pair is computed directly, the cache neither read nor written.\<close>

definition resolve_through_cache ::
  "engine \<Rightarrow> (nat \<times> nat \<rightharpoonup> interaction_record) \<Rightarrow> nat \<Rightarrow> nat \<times> nat \<Rightarrow>
   (engine_error + interaction_record) \<times> (nat \<times> nat \<rightharpoonup> interaction_record)" where
  "resolve_through_cache env cache now key =
     (if cache_reachable env then get_or_compute env cache now key
      else (fst (compute env cache now key), cache))"

text \<open>Modelled from the spec: the resolution of a pair fails with an error when the
  curated store has no record of the pair and its prediction fails with that error
  (the \<open>FAILED\<close> state of section 4.5).\<close>

definition pair_fails :: "engine \<Rightarrow> nat \<times> nat \<Rightarrow> engine_error \<Rightarrow> bool" where
  "pair_fails env key e =
     (curated_lookup env key = None \<and> predict env (fst key) (snd key) (top_k env) = Inl e)"

text \<open>Modelled from the spec: the cache has nothing to serve for a key when it holds no
  record of it, or one that has expired.\<close>

definition nothing_to_serve :: "(nat \<times> nat \<rightharpoonup> interaction_record) \<Rightarrow> nat \<Rightarrow> nat \<times> nat \<Rightarrow> bool" where
  "nothing_to_serve cache now key = (case cache key of None \<Rightarrow> True | Some r \<Rightarrow> \<not> fresh now r)"

text \<open>Modelled from the spec: what the resolution of a key may return, seen from the
  cache a check starts with: a record the cache serves (section 4.5, hit), or the
  record the miss path computes.\<close>

definition served_or_computed ::
  "engine \<Rightarrow> (nat \<times> nat \<rightharpoonup> interaction_record) \<Rightarrow> nat \<Rightarrow> nat \<times> nat \<Rightarrow> interaction_record \<Rightarrow> bool" where
  "served_or_computed env cache now key r =
     ((cache_reachable env \<and> cache key = Some r \<and> fresh now r) \<or> fst (compute env cache now key) = Inr r)"

text \<open>Modelled from the spec: step 1 of \<open>check\<close> (section 4.4), the input names
  deduplicated case-insensitively in first-seen order; \<open>seen\<close> holds the case-folded
  names met so far.\<close>

fun dedupe_names :: "(string \<Rightarrow> string) \<Rightarrow> string set \<Rightarrow> string list \<Rightarrow> string list" where
  "dedupe_names folded seen [] = []"
| "dedupe_names folded seen (name # names) =
     (if folded name \<in> seen then dedupe_names folded seen names
      else name # dedupe_names folded (insert (folded name) seen) names)"

text \<open>Modelled from the spec: step 4 of \<open>check\<close>, all unordered pairs of a list.\<close>

fun unordered_pairs :: "'a list \<Rightarrow> ('a \<times> 'a) list" where
  "unordered_pairs [] = []"
| "unordered_pairs (x # xs) = map (Pair x) xs @ unordered_pairs xs"

text \<open>Modelled from the spec: step 5 of \<open>check\<close>, each pair resolved through the cache.
  The result of a pair is kept under its key whether it is a record or an error.\<close>

fun resolve_pairs ::
  "engine \<Rightarrow> (nat \<times> nat \<rightharpoonup> interaction_record) \<Rightarrow> nat \<Rightarrow> (drug \<times> drug) list \<Rightarrow>
   ((nat \<times> nat) \<times> (engine_error + interaction_record)) list \<times> (nat \<times> nat \<rightharpoonup> interaction_record)" where
  "resolve_pairs env cache now [] = ([], cache)"
| "resolve_pairs env cache now ((a, b) # pairs) =
     (let key = interaction_key (drug_id a) (drug_id b);
          (result, cache1) = resolve_through_cache env cache now key;
          (results, cache2) = resolve_pairs env cache1 now pairs
      in ((key, result) # results, cache2))"

text \<open>Modelled from the spec: the InteractionReport of section 3. An entry of
  \<open>pairwise_results\<close> is the record of a pair, or the error that pair's resolution
  ended in (the partial-failure information of section 4.4).\<close>

record interaction_report =
  resolved_drugs :: "drug list"
  unresolved_names :: "string list"
  pairwise_results :: "((nat \<times> nat) \<times> (engine_error + interaction_record)) list"
  overall_severity :: severity_level
  summary_text :: string

text \<open>Modelled from the spec: step 6 of \<open>check\<close>, the greatest severity of the records
  returned.\<close>

definition greatest_severity ::
  "((nat \<times> nat) \<times> (engine_error + interaction_record)) list \<Rightarrow> severity_level" where
  "greatest_severity entries =
     foldr (\<lambda>(key, result) acc.
              case result of Inr r \<Rightarrow> max_severity (record_severity r) acc | Inl e \<Rightarrow> acc)
       entries SevNone"

text \<open>Modelled from the spec: the number of records of one severity, for the summary
  text.\<close>

definition bucket_count ::
  "((nat \<times> nat) \<times> (engine_error + interaction_record)) list \<Rightarrow> severity_level \<Rightarrow> nat" where
  "bucket_count entries sev =
     length (filter (\<lambda>(key, result).
                       case result of Inr r \<Rightarrow> record_severity r = sev | Inl e \<Rightarrow> False) entries)"

text \<open>Modelled from the spec: \<open>check\<close> of section 4.4. The engine-wide failures of
  section 7 fail the request: a classifier that failed to initialise, and a cache store
  that is down with no way to compute without it. The failure of one name or one pair
  does not.\<close>

definition check ::
  "engine \<Rightarrow> (nat \<times> nat \<rightharpoonup> interaction_record) \<Rightarrow> nat \<Rightarrow> string list \<Rightarrow>
   (engine_error + interaction_report) \<times> (nat \<times> nat \<rightharpoonup> interaction_record)" where
  "check env cache now medication_list =
     (if \<not> model_loaded env then (Inl ModelUnavailableError, cache)
      else if \<not> cache_reachable env \<and> \<not> cache_fallback env then (Inl CacheBackendError, cache)
      else
        let names = dedupe_names (fold_case env) {} medication_list;
            resolved = List.map_filter
                         (\<lambda>name. case resolve env name of Inr d \<Rightarrow> Some d | Inl e \<Rightarrow> None) names;
            unresolved = filter (\<lambda>name. isl (resolve env name)) names
        in if length resolved < 2 then
             (Inr \<lparr>resolved_drugs = resolved, unresolved_names = unresolved,
                   pairwise_results = [], overall_severity = SevNone,
                   summary_text = render_summary env (bucket_count []) unresolved\<rparr>,
              cache)
           else
             let (entries, cache') = resolve_pairs env cache now (unordered_pairs resolved)
             in (Inr \<lparr>resolved_drugs = resolved, unresolved_names = unresolved,
                      pairwise_results = entries,
                      overall_severity = greatest_severity entries,
                      summary_text = render_summary env (bucket_count entries) unresolved\<rparr>,
                 cache'))"

text \<open>Modelled from the spec: the example of section 8 (Warfarin, Ibuprofen and
  Lisinopril, with a curated Major record for the first pair and a network whose labels
  stay below the cutoff), with a fourth drug whose structure does not parse.\<close>

definition example_drug :: "nat \<Rightarrow> drug" where
  "example_drug i =
     \<lparr>drug_id = i,
      canonical_name =
        (if i = 10 then ''warfarin'' else if i = 20 then ''ibuprofen''
         else if i = 30 then ''lisinopril'' else ''compound-x''),
      aliases = {},
      structure_notation = (if i = 40 then ''C(('' else ''CCO'')\<rparr>"

text \<open>Modelled from the spec: the engine of that example; any other name is unknown
  to its resolver.\<close>

definition example_engine :: engine where
  "example_engine =
     \<lparr>resolve =
        (\<lambda>name. if toLowerCase name = ''warfarin'' then Inr (example_drug 10)
                 else if toLowerCase name = ''ibuprofen'' then Inr (example_drug 20)
                 else if toLowerCase name = ''lisinopril'' then Inr (example_drug 30)
                 else if toLowerCase name = ''compound-x'' then Inr (example_drug 40)
                 else Inl (UnknownDrugError name)),
      drug_table = example_drug,
      extract_fingerprint =
        (\<lambda>structure. if structure = ''C(('' then Inl InvalidStructureError else Inr [True, False]),
      network = (\<lambda>input. [1 / 10, 3 / 10]),
      curated = (\<lambda>key. if key = (10, 20) then Some (Major, ''Increased risk of bleeding'') else None),
      severity_table = (\<lambda>significant. Moderate),
      describe_labels = (\<lambda>ls. ''predicted''),
      render_summary = (\<lambda>counts names. concat names),
      cutoff = 1 / 2,
      top_k = 5,
      ttl = 86400,
      model_loaded = True,
      fold_case = toLowerCase,
      max_batch_pairs = 3,
      cache_reachable = True,
      cache_fallback = True\<rparr>"

chapter \<open>Properties\<close>

section \<open>Strings\<close>

lemma str_includes_sublist: "str_includes s t \<longleftrightarrow> sublist t s"
  by (induction s) (simp_all add: sublist_Cons_right)

lemma map_eq_append_split:
  "map f xs = ys @ zs \<Longrightarrow> \<exists>us vs. xs = us @ vs \<and> map f us = ys \<and> map f vs = zs"
  by (auto simp: map_eq_append_conv)

lemma str_includes_occurs_ci: "str_includes (toLowerCase message) med \<longleftrightarrow> occurs_ci med message"
proof
  assume "str_includes (toLowerCase message) med"
  then obtain ps ss where "map lower_char message = ps @ (med @ ss)"
    by (auto simp: str_includes_sublist sublist_def toLowerCase_def)
  from map_eq_append_split [OF this]
  obtain before rest where m: "message = before @ rest" and r: "map lower_char rest = med @ ss"
    by blast
  from map_eq_append_split [OF r]
  obtain part after where "rest = part @ after" and "map lower_char part = med"
    by blast
  with m show "occurs_ci med message"
    unfolding occurs_ci_def toLowerCase_def by blast
next
  assume "occurs_ci med message"
  then obtain before part after where "message = before @ part @ after" and "toLowerCase part = med"
    unfolding occurs_ci_def by blast
  then have "toLowerCase message = toLowerCase before @ med @ toLowerCase after"
    by (auto simp: toLowerCase_def)
  then show "str_includes (toLowerCase message) med"
    unfolding str_includes_sublist sublist_def by blast
qed

section \<open>AIService.extractMedicationsFromMessage\<close>

lemma push_loop_filter:
  "foldl (\<lambda>found x. if P x then found @ [x] else found) acc xs = acc @ filter P xs"
  by (induction xs arbitrary: acc) simp_all

lemma extractMedications_filter:
  "extractMedicationsFromMessage message =
     filter (\<lambda>med. occurs_ci med message) commonMedications"
proof -
  have "str_includes (toLowerCase message) = (\<lambda>med. occurs_ci med message)"
    by (rule ext) (rule str_includes_occurs_ci)
  then show ?thesis
    by (simp add: extractMedicationsFromMessage_def push_loop_filter)
qed

lemma distinct_commonMedications: "distinct commonMedications"
  by (simp add: commonMedications_def)

text \<open>
  C10. For every message, \<open>extractMedicationsFromMessage\<close> returns exactly the names of
  the hard-coded list of eight that occur in the message up to letter case: the result is
  the hard-coded list with the names that do not occur struck out, so it keeps the
  hard-coded order wherever the names stand in the message, has no duplicates, and holds
  no name from outside the list.
\<close>

theorem extractMedications_exact:
  "extractMedicationsFromMessage message =
     filter (\<lambda>med. occurs_ci med message)
       [''paracetamol'', ''ibuprofen'', ''aspirin'', ''clopidogrel'',
        ''metformin'', ''lisinopril'', ''atorvastatin'', ''amlodipine'']
   \<and> set (extractMedicationsFromMessage message) =
       {med. med \<in> set commonMedications \<and> occurs_ci med message}
   \<and> distinct (extractMedicationsFromMessage message)
   \<and> subseq (extractMedicationsFromMessage message) commonMedications"
proof -
  have e: "extractMedicationsFromMessage message =
          filter (\<lambda>med. occurs_ci med message) commonMedications"
    by (rule extractMedications_filter)
  have 1: "extractMedicationsFromMessage message =
     filter (\<lambda>med. occurs_ci med message)
       [''paracetamol'', ''ibuprofen'', ''aspirin'', ''clopidogrel'',
        ''metformin'', ''lisinopril'', ''atorvastatin'', ''amlodipine'']"
    unfolding e commonMedications_def by (rule refl)
  have 2: "set (extractMedicationsFromMessage message) =
       {med. med \<in> set commonMedications \<and> occurs_ci med message}"
    unfolding e by (rule set_filter)
  have 3: "distinct (extractMedicationsFromMessage message)"
    unfolding e using distinct_commonMedications by (rule distinct_filter)
  have 4: "subseq (extractMedicationsFromMessage message) commonMedications"
    unfolding e by (rule subseq_filter_left)
  from 1 2 3 4 show ?thesis by blast
qed

section \<open>DrugInteractionService.getRiskLevel\<close>

lemma severity_in_two:
  "severity_in [a, b] i \<longleftrightarrow> severity_in [a] i \<or> severity_in [b] i"
  by (auto simp: severity_in_def split: option.splits)

text \<open>The level is decided by the strings \<open>high\<close>, \<open>severe\<close>, \<open>moderate\<close> and
  \<open>medium\<close> alone, compared up to letter case.\<close>

lemma getRiskLevel_cases:
  "getRiskLevel (Some xs) =
     (if \<exists>i \<in> set xs. severity_in [''high'', ''severe''] i then ''high''
      else if \<exists>i \<in> set xs. severity_in [''moderate'', ''medium''] i then ''medium''
      else ''low'')"
proof -
  let ?f = "\<lambda>interaction. case severity interaction of
                           None \<Rightarrow> ''low''
                         | Some s \<Rightarrow> if toLowerCase s = [] then ''low'' else toLowerCase s"
  have m: "\<And>name. name \<noteq> ''low'' \<Longrightarrow> name \<noteq> [] \<Longrightarrow>
              name \<in> set (map ?f xs) \<longleftrightarrow> (\<exists>i \<in> set xs. severity_in [name] i)"
    by (auto simp: severity_in_def image_iff split: option.splits if_splits)
  show ?thesis
  proof (cases "xs = []")
    case True
    then show ?thesis by (simp add: getRiskLevel_def)
  next
    case False
    then show ?thesis
      unfolding getRiskLevel_def Let_def severity_in_two
      by (simp add: m bex_disj_distrib del: set_map)
  qed
qed

text \<open>
  C2. The overall level is the greatest severity of the records, \<open>major\<close> being the
  greatest. Here the function is run on the three records of a check of Warfarin,
  Ibuprofen and Lisinopril whose first pair has severity \<open>major\<close>, the name the
  database schema, the README and the other clients give the highest severity: the
  answer is the lowest level, \<open>low\<close>.
\<close>

theorem getRiskLevel_major_is_low:
  "getRiskLevel (Some
     [\<lparr>drug1_name = ''Warfarin'', drug2_name = ''Ibuprofen'', severity = Some ''major'',
        description = ''Increased risk of bleeding''\<rparr>,
      \<lparr>drug1_name = ''Warfarin'', drug2_name = ''Lisinopril'', severity = Some ''minor'',
        description = []\<rparr>,
      \<lparr>drug1_name = ''Ibuprofen'', drug2_name = ''Lisinopril'', severity = Some ''minor'',
        description = []\<rparr>])
   = ''low''"
  by code_simp

section \<open>DrugInteractionService.formatInteractionMessage\<close>




section \<open>ApiService.request\<close>

text \<open>
  C9, as stated: the parsed body is returned exactly when the response is ok. A response
  that is ok and whose body does not parse (a 204 with no content) makes \<open>request\<close>
  throw.
\<close>

theorem request_ok_unparsable_throws:
  "request (\<lambda>v. ''[object Object]'') (Inr \<lparr>ok = True, status = 204, body = None\<rparr>)
     = Inl SyntaxError"
  by (simp add: request_def)

text \<open>
  C9, amended. An ok response returns its parsed body when the body parses, and throws
  the parse error when it does not. A response that is not ok always throws: an
  \<open>Error\<close> saying \<open>Request failed\<close> when the body does not parse; a TypeError when
  the body is \<open>null\<close>; an \<open>Error\<close> with the string form of \<open>detail\<close> when the body has
  a truthy \<open>detail\<close> (the detail itself when it is a non-empty string); and an \<open>Error\<close>
  saying \<open>HTTP error! status:\<close> and the status code when the body has no \<open>detail\<close> or a
  falsy one. When \<open>fetch\<close> itself fails, its error is rethrown.
\<close>

theorem request_outcome:
  "(ok r \<longrightarrow> request to_string (Inr r) = (case body r of Some v \<Rightarrow> Inr v | None \<Rightarrow> Inl SyntaxError))
   \<and> (\<not> ok r \<longrightarrow> (\<exists>e. request to_string (Inr r) = Inl e))
   \<and> (\<not> ok r \<and> body r = None \<longrightarrow> request to_string (Inr r) = Inl (Error ''Request failed''))
   \<and> (\<not> ok r \<and> body r = Some JNull \<longrightarrow> request to_string (Inr r) = Inl TypeError)
   \<and> (\<not> ok r \<and> body r = Some v \<and> get_detail v = Inr (Some d) \<and> truthy d \<longrightarrow>
        request to_string (Inr r) = Inl (Error (message_of to_string d)))
   \<and> (\<not> ok r \<and> body r = Some v \<and> get_detail v = Inr (Some (JString s)) \<and> s \<noteq> [] \<longrightarrow>
        request to_string (Inr r) = Inl (Error s))
   \<and> (\<not> ok r \<and> body r = Some v
        \<and> (get_detail v = Inr None \<or> (get_detail v = Inr (Some d) \<and> \<not> truthy d)) \<longrightarrow>
        request to_string (Inr r) = Inl (Error (''HTTP error! status: '' @ string_of_nat (status r))))
   \<and> request to_string (Inl e) = Inl e"
proof -
  have "\<not> ok r \<Longrightarrow> \<exists>e. request to_string (Inr r) = Inl e"
    by (auto simp: request_def Let_def split: option.splits sum.splits)
  then show ?thesis
    by (auto simp: request_def message_of_def split: option.splits)
qed

theorem request_outcome_witness:
  "request (\<lambda>v. ''[object Object]'')
     (Inr \<lparr>ok = True, status = 200, body = Some (JObject [(''interactions'', JArray [])])\<rparr>)
     = Inr (JObject [(''interactions'', JArray [])])
   \<and> request (\<lambda>v. ''[object Object]'') (Inr \<lparr>ok = False, status = 502, body = None\<rparr>)
     = Inl (Error ''Request failed'')
   \<and> request (\<lambda>v. ''[object Object]'')
       (Inr \<lparr>ok = False, status = 401, body = Some (JObject [(''detail'', JString ''Not authenticated'')])\<rparr>)
     = Inl (Error ''Not authenticated'')
   \<and> request (\<lambda>v. ''[object Object]'')
       (Inr \<lparr>ok = False, status = 404, body = Some (JObject [(''message'', JString ''gone'')])\<rparr>)
     = Inl (Error ''HTTP error! status: 404'')"
proof -
  let ?ts = "\<lambda>v::json. ''[object Object]''"
  let ?r1 = "\<lparr>ok = True, status = 200, body = Some (JObject [(''interactions'', JArray [])])\<rparr>"
  let ?r2 = "\<lparr>ok = False, status = 502, body = None\<rparr>"
  let ?r3 = "\<lparr>ok = False, status = 401, body = Some (JObject [(''detail'', JString ''Not authenticated'')])\<rparr>"
  let ?r4 = "\<lparr>ok = False, status = 404, body = Some (JObject [(''message'', JString ''gone'')])\<rparr>"
  have n: "string_of_nat 404 = ''404''"
    by code_simp
  have 1: "request ?ts (Inr ?r1) = Inr (JObject [(''interactions'', JArray [])])"
    using request_outcome [of ?r1 ?ts] by simp
  have 2: "request ?ts (Inr ?r2) = Inl (Error ''Request failed'')"
    using request_outcome [of ?r2 ?ts] by simp
  have 3: "request ?ts (Inr ?r3) = Inl (Error ''Not authenticated'')"
    using request_outcome [of ?r3 ?ts "JObject [(''detail'', JString ''Not authenticated'')]"
                              "JString ''Not authenticated''" "''Not authenticated''"]
    by (simp add: message_of_def)
  have 4: "request ?ts (Inr ?r4) = Inl (Error ''HTTP error! status: 404'')"
    using request_outcome [of ?r4 ?ts "JObject [(''message'', JString ''gone'')]"] n
    by simp
  from 1 2 3 4 show ?thesis by blast
qed

section \<open>PrescriptionChecker.handleCheck\<close>




section \<open>The names the mobile client sends\<close>

lemma keys_Map_set:
  "map fst (Map_set m k v) = (if k \<in> set (map fst m) then map fst m else map fst m @ [k])"
proof (induction m)
  case Nil
  show ?case by simp
next
  case (Cons e m)
  obtain k' v' where e: "e = (k', v')" by (cases e)
  show ?case
  proof (cases "k' = k")
    case True
    then show ?thesis by (simp add: e)
  next
    case False
    then show ?thesis using Cons.IH by (simp add: e)
  qed
qed

lemma set_Map_set: "set (Map_set m k v) \<subseteq> insert (k, v) (set m)"
  by (induction m) (auto split: if_splits)

lemma keys_Map_loop:
  "map fst (foldl (\<lambda>m (k, v). Map_set m k v) m entries) =
     map fst m @ unseen (set (map fst m)) (map fst entries)"
proof (induction entries arbitrary: m)
  case Nil
  show ?case by simp
next
  case (Cons e entries)
  obtain k v where e: "e = (k, v)" by (cases e)
  show ?case
    unfolding e using Cons.IH [of "Map_set m k v"]
    by (simp add: keys_Map_set)
qed

lemma set_Map_loop:
  "set (foldl (\<lambda>m (k, v). Map_set m k v) m entries) \<subseteq> set m \<union> set entries"
proof (induction entries arbitrary: m)
  case Nil
  show ?case by simp
next
  case (Cons e entries)
  obtain k v where e: "e = (k, v)" by (cases e)
  have "set (foldl (\<lambda>m (k, v). Map_set m k v) (Map_set m k v) entries)
          \<subseteq> set (Map_set m k v) \<union> set entries"
    by (rule Cons.IH)
  also have "\<dots> \<subseteq> insert (k, v) (set m) \<union> set entries"
    using set_Map_set [of m k v] by blast
  finally show ?case
    unfolding e by simp
qed

lemma keys_new_Map: "map fst (new_Map entries) = first_occurrences (map fst entries)"
  by (simp add: new_Map_def first_occurrences_def keys_Map_loop)

lemma set_new_Map: "set (new_Map entries) \<subseteq> set entries"
  using set_Map_loop [of "[]" entries] by (simp add: new_Map_def)

lemma unseen_set: "set (unseen seen xs) = set xs - seen"
  by (induction xs arbitrary: seen) auto

lemma unseen_distinct: "distinct (unseen seen xs)"
  by (induction xs arbitrary: seen) (auto simp: unseen_set)

lemma first_occurrences_distinct: "distinct (first_occurrences xs)"
  by (simp add: first_occurrences_def unseen_distinct)

lemma first_occurrences_set: "set (first_occurrences xs) = set xs"
  by (simp add: first_occurrences_def unseen_set)

lemma new_Map_keyed:
  assumes "(k, v) \<in> set (new_Map (map (\<lambda>v. (f v, v)) xs))"
  shows "k = f v \<and> v \<in> set xs"
  using assms set_new_Map [of "map (\<lambda>v. (f v, v)) xs"] by auto

lemma keys_of_values:
  "map f (Map_values (new_Map (map (\<lambda>v. (f v, v)) xs))) = map fst (new_Map (map (\<lambda>v. (f v, v)) xs))"
  unfolding Map_values_def map_map
  by (rule map_cong [OF refl]) (auto dest: new_Map_keyed)

lemma normalizeNames_medsToUse: "normalizeNames trim lower arr = medsToUse trim lower arr"
  by (simp add: normalizeNames_def medsToUse_def)

text \<open>
  The mobile client does deduplicate: whatever \<open>trim\<close> and \<open>lower\<close> are, the list
  \<open>ConfirmResult\<close> sends, lower-cased, is the list of first occurrences of the
  lower-cased, trimmed, non-empty names of its input, so no two names sent agree up to
  letter case, and every name sent is the trimmed name of an input element. Of two
  spellings of a name the later one is kept, at the place of the first.
\<close>

lemma medsToUse_first_occurrences:
  "map lower (medsToUse trim lower (Some arr)) =
     first_occurrences (map lower (filter (\<lambda>s. s \<noteq> []) (map (\<lambda>x. trim (item_name x)) arr)))
   \<and> distinct (map lower (medsToUse trim lower (Some arr)))
   \<and> set (medsToUse trim lower (Some arr)) \<subseteq> (\<lambda>x. trim (item_name x)) ` set arr"
proof -
  let ?names = "filter (\<lambda>s. s \<noteq> []) (map (\<lambda>x. trim (item_name x)) arr)"
  let ?es = "map (\<lambda>v. (lower v, v)) ?names"
  have c: "cleaned trim (Some arr) = ?names"
    by (simp add: cleaned_def comp_def)
  have k: "map lower (medsToUse trim lower (Some arr)) = map fst (new_Map ?es)"
    unfolding medsToUse_def c by (rule keys_of_values)
  have 1: "map lower (medsToUse trim lower (Some arr)) = first_occurrences (map lower ?names)"
    unfolding k by (simp add: keys_new_Map comp_def)
  have 2: "distinct (map lower (medsToUse trim lower (Some arr)))"
    unfolding 1 by (rule first_occurrences_distinct)
  have 3: "set (medsToUse trim lower (Some arr)) \<subseteq> (\<lambda>x. trim (item_name x)) ` set arr"
    unfolding medsToUse_def c Map_values_def using set_new_Map [of ?es] by auto
  from 1 2 3 show ?thesis by blast
qed

lemma medsToUse_example:
  "medsToUse (\<lambda>s. s) toLowerCase
     (Some [MedName ''Aspirin'', MedName ''Ibuprofen'', MedObject None, MedName ''aspirin''])
     = [''aspirin'', ''Ibuprofen'']"
  by code_simp



section \<open>The interaction engine of the specification\<close>

lemma interaction_key_commute: "interaction_key a b = interaction_key b a"
  by (simp add: interaction_key_def min.commute max.commute)

lemma predict_commute: "predict env a b k = predict env b a k"
  by (simp add: predict_def min.commute max.commute)

lemma compute_stores:
  assumes "compute env cache now key = (Inr r, cache')"
  shows "cache' key = Some r"
  using assms
  by (auto simp: compute_def Let_def split: option.splits sum.splits prod.splits)

lemma get_or_compute_stores:
  assumes "get_or_compute env cache now key = (Inr r, cache')"
  shows "cache' key = Some r"
  using assms
  by (auto simp: get_or_compute_def compute_stores split: option.splits if_splits)

lemma get_or_compute_again:
  assumes "get_or_compute env cache now key = (Inr r, cache')" and "fresh later r"
  shows "get_or_compute env cache' later key = (Inr r, cache')"
  using get_or_compute_stores [OF assms(1)] assms(2)
  by (simp add: get_or_compute_def)


lemma compute_error:
  "fst (compute env cache now key) = Inl e \<longleftrightarrow> pair_fails env key e"
  by (auto simp: compute_def pair_fails_def Let_def split: option.splits sum.splits prod.splits)

lemma compute_failing:
  "pair_fails env key e \<Longrightarrow> compute env cache now key = (Inl e, cache)"
  by (simp add: compute_def pair_fails_def)

lemma compute_other_key:
  "compute env cache now key = (result, cache1) \<Longrightarrow> other \<noteq> key \<Longrightarrow> cache1 other = cache other"
  by (auto simp: compute_def Let_def split: option.splits sum.splits prod.splits)

lemma get_or_compute_error:
  "fst (get_or_compute env cache now key) = Inl e \<Longrightarrow> pair_fails env key e"
  by (auto simp: get_or_compute_def compute_error split: option.splits if_splits)

lemma get_or_compute_other_key:
  "get_or_compute env cache now key = (result, cache1) \<Longrightarrow> other \<noteq> key \<Longrightarrow> cache1 other = cache other"
  by (auto simp: get_or_compute_def split: option.splits if_splits dest: compute_other_key)

lemma through_cache_error:
  "fst (resolve_through_cache env cache now key) = Inl e \<Longrightarrow> pair_fails env key e"
  by (auto simp: resolve_through_cache_def compute_error split: if_splits dest: get_or_compute_error)

lemma through_cache_failing:
  assumes "pair_fails env key e" and "cache_reachable env \<longrightarrow> nothing_to_serve cache now key"
  shows "resolve_through_cache env cache now key = (Inl e, cache)"
  using assms
  by (auto simp: resolve_through_cache_def get_or_compute_def nothing_to_serve_def compute_failing
           split: option.splits)

lemma through_cache_other_key:
  "resolve_through_cache env cache now key = (result, cache1) \<Longrightarrow> other \<noteq> key \<Longrightarrow>
     cache1 other = cache other"
  by (auto simp: resolve_through_cache_def split: if_splits dest: get_or_compute_other_key)

lemma through_cache_keeps_nothing_to_serve:
  assumes "resolve_through_cache env cache now key = (result, cache1)"
    and "pair_fails env other e"
    and "cache_reachable env \<longrightarrow> nothing_to_serve cache now other"
  shows "cache_reachable env \<longrightarrow> nothing_to_serve cache1 now other"
proof (cases "other = key")
  case True
  with assms through_cache_failing [of env key e cache now] show ?thesis by simp
next
  case False
  with through_cache_other_key [OF assms(1)] have "cache1 other = cache other" by simp
  with assms(3) show ?thesis by (simp add: nothing_to_serve_def)
qed

lemma resolve_pairs_step:
  assumes "resolve_through_cache env cache now (interaction_key (drug_id a) (drug_id b)) = (result, cache1)"
    and "resolve_pairs env cache1 now pairs = (results, cache2)"
  shows "resolve_pairs env cache now ((a, b) # pairs) =
           ((interaction_key (drug_id a) (drug_id b), result) # results, cache2)"
  using assms by simp

lemma resolve_pairs_keys:
  "map fst (fst (resolve_pairs env cache now pairs)) =
     map (\<lambda>(a, b). interaction_key (drug_id a) (drug_id b)) pairs"
proof (induction pairs arbitrary: cache)
  case Nil
  show ?case by simp
next
  case (Cons p pairs)
  obtain a b where p: "p = (a, b)" by (cases p)
  obtain result cache1
    where g: "resolve_through_cache env cache now (interaction_key (drug_id a) (drug_id b)) = (result, cache1)"
    by (cases "resolve_through_cache env cache now (interaction_key (drug_id a) (drug_id b))")
  obtain results cache2 where r: "resolve_pairs env cache1 now pairs = (results, cache2)"
    by (cases "resolve_pairs env cache1 now pairs")
  have "map fst results = map (\<lambda>(a, b). interaction_key (drug_id a) (drug_id b)) pairs"
    using Cons.IH [of cache1] r by simp
  then show ?case
    unfolding p resolve_pairs_step [OF g r] by simp
qed

lemma resolve_pairs_errors_genuine:
  "(key, Inl e) \<in> set (fst (resolve_pairs env cache now pairs)) \<Longrightarrow> pair_fails env key e"
proof (induction pairs arbitrary: cache)
  case Nil
  then show ?case by simp
next
  case (Cons p pairs)
  obtain a b where p: "p = (a, b)" by (cases p)
  obtain result cache1
    where g: "resolve_through_cache env cache now (interaction_key (drug_id a) (drug_id b)) = (result, cache1)"
    by (cases "resolve_through_cache env cache now (interaction_key (drug_id a) (drug_id b))")
  obtain results cache2 where r: "resolve_pairs env cache1 now pairs = (results, cache2)"
    by (cases "resolve_pairs env cache1 now pairs")
  from Cons.prems have "(key, Inl e) = (interaction_key (drug_id a) (drug_id b), result)
      \<or> (key, Inl e) \<in> set results"
    unfolding p resolve_pairs_step [OF g r] by simp
  then show ?case
  proof
    assume "(key, Inl e) = (interaction_key (drug_id a) (drug_id b), result)"
    with g have "fst (resolve_through_cache env cache now key) = Inl e" by simp
    then show ?thesis by (rule through_cache_error)
  next
    assume "(key, Inl e) \<in> set results"
    with r Cons.IH [of cache1] show ?thesis by simp
  qed
qed

lemma resolve_pairs_failures_kept:
  assumes "pair_fails env key e"
    and "cache_reachable env \<longrightarrow> nothing_to_serve cache now key"
    and "(key, result) \<in> set (fst (resolve_pairs env cache now pairs))"
  shows "result = Inl e"
  using assms(2,3)
proof (induction pairs arbitrary: cache)
  case Nil
  then show ?case by simp
next
  case (Cons p pairs)
  obtain a b where p: "p = (a, b)" by (cases p)
  let ?k = "interaction_key (drug_id a) (drug_id b)"
  obtain result1 cache1
    where g: "resolve_through_cache env cache now ?k = (result1, cache1)"
    by (cases "resolve_through_cache env cache now ?k")
  obtain results cache2 where r: "resolve_pairs env cache1 now pairs = (results, cache2)"
    by (cases "resolve_pairs env cache1 now pairs")
  from Cons.prems(2) have "(key, result) = (?k, result1) \<or> (key, result) \<in> set results"
    unfolding p resolve_pairs_step [OF g r] by simp
  then show ?case
  proof
    assume "(key, result) = (?k, result1)"
    with g through_cache_failing [OF assms(1) Cons.prems(1)] show ?thesis by simp
  next
    assume "(key, result) \<in> set results"
    moreover have "cache_reachable env \<longrightarrow> nothing_to_serve cache1 now key"
      by (rule through_cache_keeps_nothing_to_serve [OF g assms(1) Cons.prems(1)])
    ultimately show ?thesis using Cons.IH [of cache1] r by simp
  qed
qed

lemma unordered_pairs_short: "length xs < 2 \<Longrightarrow> unordered_pairs xs = []"
  by (cases xs rule: unordered_pairs.cases) (auto simp: Suc_less_eq2)

lemma dedupe_names_covers:
  "name \<in> set names \<Longrightarrow> folded name \<notin> seen \<Longrightarrow>
     \<exists>kept \<in> set (dedupe_names folded seen names). folded kept = folded name"
proof (induction names arbitrary: seen)
  case Nil
  then show ?case by simp
next
  case (Cons n names)
  show ?case
  proof (cases "folded n = folded name")
    case True
    with Cons.prems show ?thesis by simp
  next
    case False
    with Cons.prems have "name \<in> set names" by auto
    moreover from False Cons.prems have "folded name \<notin> insert (folded n) seen" by simp
    ultimately show ?thesis
      using Cons.IH [of seen] Cons.IH [of "insert (folded n) seen"] Cons.prems(2) by auto
  qed
qed

lemma compute_result_any_cache:
  "fst (compute env cache now key) = fst (compute env cache0 now key)"
  by (simp add: compute_def Let_def split: option.splits sum.splits prod.splits)

lemma compute_cache_after:
  "compute env cache now key = (result, cache1) \<Longrightarrow>
     cache1 = cache \<or> (\<exists>r. result = Inr r \<and> cache1 = cache(key \<mapsto> r))"
  by (auto simp: compute_def Let_def split: option.splits sum.splits prod.splits)

lemma through_cache_success:
  assumes inv: "\<forall>k r. c k = Some r \<longrightarrow> c0 k = Some r \<or> fst (compute env c0 now k) = Inr r"
    and g: "resolve_through_cache env c now key = (result, c1)"
  shows "(\<forall>r. result = Inr r \<longrightarrow> served_or_computed env c0 now key r)
         \<and> (\<forall>k r. c1 k = Some r \<longrightarrow> c0 k = Some r \<or> fst (compute env c0 now k) = Inr r)"
proof (cases "cache_reachable env")
  case False
  with g have "result = fst (compute env c now key)" and "c1 = c"
    by (auto simp: resolve_through_cache_def)
  with inv compute_result_any_cache [of env c now key c0] show ?thesis
    by (simp add: served_or_computed_def)
next
  case True
  with g have goc: "get_or_compute env c now key = (result, c1)"
    by (simp add: resolve_through_cache_def)
  show ?thesis
  proof (cases "\<exists>r. c key = Some r \<and> fresh now r")
    case True
    then obtain r where r: "c key = Some r" "fresh now r" by blast
    with goc have same: "result = Inr r" "c1 = c" by (auto simp: get_or_compute_def)
    from inv r(1) have "c0 key = Some r \<or> fst (compute env c0 now key) = Inr r" by blast
    with r(2) \<open>cache_reachable env\<close> have "served_or_computed env c0 now key r"
      by (auto simp: served_or_computed_def)
    with same inv show ?thesis by simp
  next
    case False
    with goc have cmp: "compute env c now key = (result, c1)"
      by (auto simp: get_or_compute_def split: option.splits if_splits)
    then have res: "result = fst (compute env c0 now key)"
      using compute_result_any_cache [of env c now key c0] by simp
    have "\<forall>k r. c1 k = Some r \<longrightarrow> c0 k = Some r \<or> fst (compute env c0 now k) = Inr r"
    proof (intro allI impI)
      fix k r
      assume h: "c1 k = Some r"
      from compute_cache_after [OF cmp]
      consider "c1 = c" | stored where "result = Inr stored" "c1 = c(key \<mapsto> stored)"
        by blast
      then show "c0 k = Some r \<or> fst (compute env c0 now k) = Inr r"
      proof cases
        case 1
        with h inv show ?thesis by blast
      next
        case 2
        show ?thesis
        proof (cases "k = key")
          case True
          with 2 h have "r = stored" by simp
          with 2 res True show ?thesis by simp
        next
          case False
          with 2 h have "c k = Some r" by simp
          with inv show ?thesis by blast
        qed
      qed
    qed
    with res show ?thesis by (simp add: served_or_computed_def)
  qed
qed

lemma resolve_pairs_success:
  assumes "\<forall>k r. c k = Some r \<longrightarrow> c0 k = Some r \<or> fst (compute env c0 now k) = Inr r"
    and "(key, Inr r) \<in> set (fst (resolve_pairs env c now pairs))"
  shows "served_or_computed env c0 now key r"
  using assms
proof (induction pairs arbitrary: c)
  case Nil
  then show ?case by simp
next
  case (Cons p pairs)
  obtain a b where p: "p = (a, b)" by (cases p)
  let ?k = "interaction_key (drug_id a) (drug_id b)"
  obtain result1 cache1
    where g: "resolve_through_cache env c now ?k = (result1, cache1)"
    by (cases "resolve_through_cache env c now ?k")
  obtain results cache2 where rr: "resolve_pairs env cache1 now pairs = (results, cache2)"
    by (cases "resolve_pairs env cache1 now pairs")
  note step = through_cache_success [OF Cons.prems(1) g]
  from Cons.prems(2) have "(key, Inr r) = (?k, result1) \<or> (key, Inr r) \<in> set results"
    unfolding p resolve_pairs_step [OF g rr] by simp
  then show ?case
  proof
    assume "(key, Inr r) = (?k, result1)"
    with step show ?thesis by simp
  next
    assume "(key, Inr r) \<in> set results"
    with Cons.IH [of cache1] step rr show ?thesis by simp
  qed
qed

text \<open>
  C4. A check whose classifier is loaded and whose cache store answers, or may be
  bypassed, always returns a report, whatever fails for a single name or a single pair.
  Every input name is kept up to letter case; the kept names that resolve are the
  resolved drugs and those that do not are the unresolved names. Every unordered pair of
  resolved drugs has its entry: an error entry is the failure of that very pair, a pair
  that fails with nothing in the cache to serve has its error as its entry, and a record
  entry is the record the cache served or the miss path computed. The request itself
  fails only for an engine-wide reason: \<open>ModelUnavailableError\<close> when the classifier
  is not loaded, \<open>CacheBackendError\<close> when the cache store is down and may not be
  bypassed.
\<close>

theorem check_reports_partial_failures:
  "(model_loaded env \<and> (cache_reachable env \<or> cache_fallback env) \<longrightarrow>
      (\<exists>report cache'.
          check env cache now medication_list = (Inr report, cache')
        \<and> resolved_drugs report =
            List.map_filter (\<lambda>name. case resolve env name of Inr d \<Rightarrow> Some d | Inl e \<Rightarrow> None)
              (dedupe_names (fold_case env) {} medication_list)
        \<and> unresolved_names report =
            filter (\<lambda>name. isl (resolve env name)) (dedupe_names (fold_case env) {} medication_list)
        \<and> (\<forall>name \<in> set medication_list.
              \<exists>kept \<in> set (dedupe_names (fold_case env) {} medication_list).
                 fold_case env kept = fold_case env name)
        \<and> map fst (pairwise_results report) =
            map (\<lambda>(a, b). interaction_key (drug_id a) (drug_id b))
              (unordered_pairs (resolved_drugs report))
        \<and> (\<forall>key e. (key, Inl e) \<in> set (pairwise_results report) \<longrightarrow> pair_fails env key e)
        \<and> (\<forall>key e result.
              pair_fails env key e
              \<and> (cache_reachable env \<longrightarrow> nothing_to_serve cache now key)
              \<and> (key, result) \<in> set (pairwise_results report) \<longrightarrow> result = Inl e)
        \<and> (\<forall>key r. (key, Inr r) \<in> set (pairwise_results report) \<longrightarrow>
              served_or_computed env cache now key r)
        \<and> overall_severity report = greatest_severity (pairwise_results report)))
   \<and> (\<not> model_loaded env \<longrightarrow> check env cache now medication_list = (Inl ModelUnavailableError, cache))
   \<and> (model_loaded env \<and> \<not> cache_reachable env \<and> \<not> cache_fallback env \<longrightarrow>
        check env cache now medication_list = (Inl CacheBackendError, cache))
   \<and> (fst (check env cache now medication_list) = Inl failure \<longrightarrow>
        (failure = ModelUnavailableError \<and> \<not> model_loaded env)
        \<or> (failure = CacheBackendError \<and> \<not> cache_reachable env \<and> \<not> cache_fallback env))"
proof -
  let ?names = "dedupe_names (fold_case env) {} medication_list"
  let ?resolved = "List.map_filter
                     (\<lambda>name. case resolve env name of Inr d \<Rightarrow> Some d | Inl e \<Rightarrow> None) ?names"
  let ?unresolved = "filter (\<lambda>name. isl (resolve env name)) ?names"
  obtain entries cache2 where rp: "resolve_pairs env cache now (unordered_pairs ?resolved) = (entries, cache2)"
    by (cases "resolve_pairs env cache now (unordered_pairs ?resolved)")
  have keys: "map fst entries =
        map (\<lambda>(a, b). interaction_key (drug_id a) (drug_id b)) (unordered_pairs ?resolved)"
    using resolve_pairs_keys [of env cache now "unordered_pairs ?resolved"] rp by simp
  have genuine: "\<forall>key e. (key, Inl e) \<in> set entries \<longrightarrow> pair_fails env key e"
    using resolve_pairs_errors_genuine [of _ _ env cache now "unordered_pairs ?resolved"] rp by simp
  have kept: "\<forall>key e result.
              pair_fails env key e
              \<and> (cache_reachable env \<longrightarrow> nothing_to_serve cache now key)
              \<and> (key, result) \<in> set entries \<longrightarrow> result = Inl e"
    using resolve_pairs_failures_kept [of env _ _ cache now _ "unordered_pairs ?resolved"] rp by auto
  have success: "\<forall>key r. (key, Inr r) \<in> set entries \<longrightarrow> served_or_computed env cache now key r"
  proof (intro allI impI)
    fix key r
    assume "(key, Inr r) \<in> set entries"
    with rp have m: "(key, Inr r) \<in> set (fst (resolve_pairs env cache now (unordered_pairs ?resolved)))"
      by simp
    have start: "\<forall>k r. cache k = Some r \<longrightarrow> cache k = Some r \<or> fst (compute env cache now k) = Inr r"
      by simp
    from resolve_pairs_success [OF start m] show "served_or_computed env cache now key r" .
  qed
  have covers: "\<forall>name \<in> set medication_list. \<exists>kept \<in> set ?names. fold_case env kept = fold_case env name"
    using dedupe_names_covers [of _ medication_list "fold_case env" "{}"] by simp
  have 1: "model_loaded env \<and> (cache_reachable env \<or> cache_fallback env) \<longrightarrow>
      (\<exists>report cache'.
          check env cache now medication_list = (Inr report, cache')
        \<and> resolved_drugs report = ?resolved
        \<and> unresolved_names report = ?unresolved
        \<and> (\<forall>name \<in> set medication_list. \<exists>kept \<in> set ?names. fold_case env kept = fold_case env name)
        \<and> map fst (pairwise_results report) =
            map (\<lambda>(a, b). interaction_key (drug_id a) (drug_id b))
              (unordered_pairs (resolved_drugs report))
        \<and> (\<forall>key e. (key, Inl e) \<in> set (pairwise_results report) \<longrightarrow> pair_fails env key e)
        \<and> (\<forall>key e result.
              pair_fails env key e
              \<and> (cache_reachable env \<longrightarrow> nothing_to_serve cache now key)
              \<and> (key, result) \<in> set (pairwise_results report) \<longrightarrow> result = Inl e)
        \<and> (\<forall>key r. (key, Inr r) \<in> set (pairwise_results report) \<longrightarrow>
              served_or_computed env cache now key r)
        \<and> overall_severity report = greatest_severity (pairwise_results report))"
  proof (cases "length ?resolved < 2")
    case True
    then show ?thesis
      using covers by (auto simp: check_def Let_def unordered_pairs_short greatest_severity_def)
  next
    case False
    then show ?thesis
      using rp keys genuine kept success covers by (auto simp: check_def Let_def)
  qed
  have 2: "\<not> model_loaded env \<longrightarrow> check env cache now medication_list = (Inl ModelUnavailableError, cache)"
    by (simp add: check_def)
  have 3: "model_loaded env \<and> \<not> cache_reachable env \<and> \<not> cache_fallback env \<longrightarrow>
        check env cache now medication_list = (Inl CacheBackendError, cache)"
    by (simp add: check_def)
  have 4: "fst (check env cache now medication_list) = Inl failure \<longrightarrow>
        (failure = ModelUnavailableError \<and> \<not> model_loaded env)
        \<or> (failure = CacheBackendError \<and> \<not> cache_reachable env \<and> \<not> cache_fallback env)"
    using rp by (auto simp: check_def Let_def split: if_splits)
  from 1 2 3 4 show ?thesis by blast
qed


lemma predict_fails:
  assumes "extractor_sound env"
    and "isl (extract_fingerprint env (structure_notation (drug_table env a)))
         \<or> isl (extract_fingerprint env (structure_notation (drug_table env b)))"
  shows "predict env a b k = Inl InvalidStructureError"
proof -
  have s: "\<And>i e. extract_fingerprint env (structure_notation (drug_table env i)) = Inl e
              \<Longrightarrow> e = InvalidStructureError"
    using assms(1) by (simp add: extractor_sound_def)
  show ?thesis
  proof (cases "a \<le> b")
    case True
    with assms(2) show ?thesis
      by (auto simp: predict_def min_def max_def isl_def split: sum.splits dest: s)
  next
    case False
    with assms(2) show ?thesis
      by (auto simp: predict_def min_def max_def isl_def split: sum.splits dest: s)
  qed
qed

lemma predict_succeeds:
  assumes "extract_fingerprint env (structure_notation (drug_table env (min a b))) = Inr fpLo"
    and "extract_fingerprint env (structure_notation (drug_table env (max a b))) = Inr fpHi"
  shows "predict env a b k = Inr (take k (ranked (network env (fpLo @ fpHi))))"
  using assms by (simp add: predict_def)

text \<open>
  C5, amended. A batch of no more pairs than the configured maximum returns one entry
  for each pair, in the order of the input; an entry is the prediction of its own pair
  alone, so replacing one pair changes that pair's entry and no other. A pair with a
  structure that does not parse has \<open>InvalidStructureError\<close> as its entry, a pair
  whose two structures parse has its ranked labels. A batch of more pairs than the
  maximum is rejected whole with \<open>BatchSizeExceededError\<close>.
\<close>

theorem predict_batch_within_limit:
  "(length pairs \<le> max_batch_pairs env \<longrightarrow>
      (\<exists>results.
          predict_batch env pairs k = Inr results
        \<and> length results = length pairs
        \<and> (\<forall>i < length pairs. results ! i = predict env (fst (pairs ! i)) (snd (pairs ! i)) k)
        \<and> predict_batch env (pairs[j := (a, b)]) k = Inr (results[j := predict env a b k])))
   \<and> (max_batch_pairs env < length pairs \<longrightarrow> predict_batch env pairs k = Inl BatchSizeExceededError)
   \<and> (extractor_sound env
        \<and> (isl (extract_fingerprint env (structure_notation (drug_table env a)))
             \<or> isl (extract_fingerprint env (structure_notation (drug_table env b))))
       \<longrightarrow> predict env a b k = Inl InvalidStructureError)
   \<and> (extract_fingerprint env (structure_notation (drug_table env (min a b))) = Inr fpLo
        \<and> extract_fingerprint env (structure_notation (drug_table env (max a b))) = Inr fpHi
       \<longrightarrow> predict env a b k = Inr (take k (ranked (network env (fpLo @ fpHi)))))"
proof -
  have 1: "length pairs \<le> max_batch_pairs env \<longrightarrow>
      (\<exists>results.
          predict_batch env pairs k = Inr results
        \<and> length results = length pairs
        \<and> (\<forall>i < length pairs. results ! i = predict env (fst (pairs ! i)) (snd (pairs ! i)) k)
        \<and> predict_batch env (pairs[j := (a, b)]) k = Inr (results[j := predict env a b k]))"
    by (simp add: predict_batch_def split_beta map_update)
  have 2: "max_batch_pairs env < length pairs \<longrightarrow> predict_batch env pairs k = Inl BatchSizeExceededError"
    by (simp add: predict_batch_def)
  from 1 2 predict_fails [of env a b k] predict_succeeds [of env a b fpLo fpHi k]
  show ?thesis by blast
qed


lemma example_ranked: "ranked [1 / 10, 3 / 10] = [(1, 3 / 10), (0, 1 / 10)]"
proof -
  have "[0..<length [1 / 10, 3 / 10 :: real]] = [0, 1]"
    by (simp add: upt_rec)
  then show ?thesis
    by (simp add: ranked_def)
qed

lemma example_settings:
  "top_k example_engine = 5" "ttl example_engine = 86400" "cutoff example_engine = 1 / 2"
  "describe_labels example_engine ls = ''predicted''" "model_loaded example_engine"
  "render_summary example_engine counts names = concat names"
  "fold_case example_engine = toLowerCase" "max_batch_pairs example_engine = 3"
  "cache_reachable example_engine" "cache_fallback example_engine"
  by (simp_all add: example_engine_def)

lemma example_curated:
  "curated_lookup example_engine (10, 20) = Some (Major, ''Increased risk of bleeding'')"
  "curated_lookup example_engine (20, 30) = None"
  "curated_lookup example_engine (10, 40) = None"
  "curated_lookup example_engine (20, 40) = None"
  by (simp_all add: curated_lookup_def example_engine_def)

lemma example_extract:
  "extract_fingerprint example_engine (structure_notation (drug_table example_engine 40))
     = Inl InvalidStructureError"
  "extract_fingerprint example_engine (structure_notation (drug_table example_engine 10)) = Inr [True, False]"
  "extract_fingerprint example_engine (structure_notation (drug_table example_engine 20)) = Inr [True, False]"
  "extract_fingerprint example_engine (structure_notation (drug_table example_engine 30)) = Inr [True, False]"
  by (simp_all add: example_engine_def example_drug_def)

lemma example_network: "network example_engine input = [1 / 10, 3 / 10]"
  by (simp add: example_engine_def)

lemma example_predict:
  "predict example_engine 20 30 5 = Inr [(1, 3 / 10), (0, 1 / 10)]"
  "predict example_engine 10 20 5 = Inr [(1, 3 / 10), (0, 1 / 10)]"
  "predict example_engine 10 40 5 = Inl InvalidStructureError"
  "predict example_engine 20 40 5 = Inl InvalidStructureError"
  by (simp_all add: predict_def example_extract example_network example_ranked)

lemma example_resolve:
  "resolve example_engine ''Warfarin'' = Inr (example_drug 10)"
  "resolve example_engine ''Ibuprofen'' = Inr (example_drug 20)"
  "resolve example_engine ''Compound-X'' = Inr (example_drug 40)"
  "resolve example_engine ''Unobtainium'' = Inl (UnknownDrugError ''Unobtainium'')"
  by (simp_all add: example_engine_def toLowerCase_def lower_char_def)


text \<open>
  C5, as stated: every batch request gives one entry for each pair and is never all or
  nothing. A batch of four pairs, each of which can be predicted, sent to an engine
  that takes three pairs a call, is rejected whole.
\<close>

theorem predict_batch_oversize_rejected:
  "predict_batch example_engine [(10, 20), (10, 30), (20, 30), (20, 10)] 5
     = Inl BatchSizeExceededError"
  by (simp add: predict_batch_def example_settings)

lemma example_extractor_sound: "extractor_sound example_engine"
  by (simp add: extractor_sound_def example_engine_def)

theorem predict_batch_within_limit_witness:
  "length [(10::nat, 20::nat), (40, 30), (20, 30)] \<le> max_batch_pairs example_engine
   \<and> extractor_sound example_engine
   \<and> isl (extract_fingerprint example_engine (structure_notation (drug_table example_engine 40)))
   \<and> predict_batch example_engine [(10, 20), (40, 30), (20, 30)] 5 =
       Inr [Inr [(1, 3 / 10), (0, 1 / 10)], Inl InvalidStructureError, Inr [(1, 3 / 10), (0, 1 / 10)]]
   \<and> predict_batch example_engine [(10, 20), (20, 30), (20, 30)] 5 =
       Inr [Inr [(1, 3 / 10), (0, 1 / 10)], Inr [(1, 3 / 10), (0, 1 / 10)], Inr [(1, 3 / 10), (0, 1 / 10)]]"
proof -
  let ?pairs = "[(10::nat, 20::nat), (40, 30), (20, 30)]"
  have small: "length ?pairs \<le> max_batch_pairs example_engine"
    by (simp add: example_settings)
  have bad: "isl (extract_fingerprint example_engine (structure_notation (drug_table example_engine 40)))"
    by (simp add: example_extract)
  from predict_batch_within_limit
         [of ?pairs example_engine 5 0 40 30 "[True, False]" "[True, False]",
          THEN conjunct2, THEN conjunct2, THEN conjunct1]
    example_extractor_sound bad
  have failed: "predict example_engine 40 30 5 = Inl InvalidStructureError"
    by blast
  have with_bad: "predict_batch example_engine ?pairs 5 =
       Inr [Inr [(1, 3 / 10), (0, 1 / 10)], Inl InvalidStructureError, Inr [(1, 3 / 10), (0, 1 / 10)]]"
    by (simp add: predict_batch_def example_settings example_predict failed)
  have without: "predict_batch example_engine [(10, 20), (20, 30), (20, 30)] 5 =
       Inr [Inr [(1, 3 / 10), (0, 1 / 10)], Inr [(1, 3 / 10), (0, 1 / 10)], Inr [(1, 3 / 10), (0, 1 / 10)]]"
    by (simp add: predict_batch_def example_settings example_predict)
  from with_bad without small example_extractor_sound bad show ?thesis by simp
qed

theorem check_reports_partial_failures_witness:
  "model_loaded example_engine \<and> cache_reachable example_engine
   \<and> fst (check example_engine Map.empty 0
            [''Warfarin'', ''Ibuprofen'', ''WARFARIN'', ''Compound-X'', ''Unobtainium'']) =
       Inr \<lparr>resolved_drugs = [example_drug 10, example_drug 20, example_drug 40],
             unresolved_names = [''Unobtainium''],
             pairwise_results =
               [((10, 20), Inr \<lparr>record_key = (10, 20), source = Curated, record_severity = Major,
                               record_description = ''Increased risk of bleeding'', labels = [],
                               computed_at = 0, expires_at = None\<rparr>),
                ((10, 40), Inl InvalidStructureError),
                ((20, 40), Inl InvalidStructureError)],
             overall_severity = Major,
             summary_text = ''Unobtainium''\<rparr>
   \<and> pair_fails example_engine (10, 40) InvalidStructureError
   \<and> nothing_to_serve Map.empty 0 (10, 40)
   \<and> check (example_engine\<lparr>model_loaded := False\<rparr>) Map.empty 0
        [''Warfarin'', ''Ibuprofen'', ''WARFARIN'', ''Compound-X'', ''Unobtainium'']
       = (Inl ModelUnavailableError, Map.empty)
   \<and> check (example_engine\<lparr>cache_reachable := False, cache_fallback := False\<rparr>) Map.empty 0
        [''Warfarin'', ''Ibuprofen'', ''WARFARIN'', ''Compound-X'', ''Unobtainium'']
       = (Inl CacheBackendError, Map.empty)"
proof -
  let ?meds = "[''Warfarin'', ''Ibuprofen'', ''WARFARIN'', ''Compound-X'', ''Unobtainium'']"
  note loaded = example_settings(5) and reachable = example_settings(9)
  have names: "dedupe_names (fold_case example_engine) {} ?meds =
                 [''Warfarin'', ''Ibuprofen'', ''Compound-X'', ''Unobtainium'']"
    by (simp add: example_settings toLowerCase_def lower_char_def)
  have ids: "drug_id (example_drug 10) = 10" "drug_id (example_drug 20) = 20" "drug_id (example_drug 40) = 40"
    by (simp_all add: example_drug_def)
  have keys: "interaction_key 10 20 = (10, 20)" "interaction_key 10 40 = (10, 40)"
    "interaction_key 20 40 = (20, 40)"
    by (simp_all add: interaction_key_def)
  have fails: "pair_fails example_engine (10, 40) InvalidStructureError"
    by (simp add: pair_fails_def example_curated example_predict example_settings)
  have nothing: "nothing_to_serve Map.empty 0 (10, 40)"
    by (simp add: nothing_to_serve_def)
  have pairs: "resolve_pairs example_engine Map.empty 0
                 [(example_drug 10, example_drug 20), (example_drug 10, example_drug 40),
                  (example_drug 20, example_drug 40)] =
               ([((10, 20), Inr \<lparr>record_key = (10, 20), source = Curated, record_severity = Major,
                               record_description = ''Increased risk of bleeding'', labels = [],
                               computed_at = 0, expires_at = None\<rparr>),
                ((10, 40), Inl InvalidStructureError),
                ((20, 40), Inl InvalidStructureError)],
                [(10, 20) \<mapsto> \<lparr>record_key = (10, 20), source = Curated, record_severity = Major,
                               record_description = ''Increased risk of bleeding'', labels = [],
                               computed_at = 0, expires_at = None\<rparr>])"
    by (simp add: ids keys resolve_through_cache_def get_or_compute_def compute_def example_curated
          example_predict example_settings Let_def)
  have ev: "fst (check example_engine Map.empty 0 ?meds) =
       Inr \<lparr>resolved_drugs = [example_drug 10, example_drug 20, example_drug 40],
             unresolved_names = [''Unobtainium''],
             pairwise_results =
               [((10, 20), Inr \<lparr>record_key = (10, 20), source = Curated, record_severity = Major,
                               record_description = ''Increased risk of bleeding'', labels = [],
                               computed_at = 0, expires_at = None\<rparr>),
                ((10, 40), Inl InvalidStructureError),
                ((20, 40), Inl InvalidStructureError)],
             overall_severity = Major,
             summary_text = ''Unobtainium''\<rparr>"
    unfolding check_def names
    by (simp add: loaded reachable example_resolve example_settings List.map_filter_simps pairs
          greatest_severity_def max_severity_def del: resolve_pairs.simps)
  have unloaded: "check (example_engine\<lparr>model_loaded := False\<rparr>) Map.empty 0 ?meds
                    = (Inl ModelUnavailableError, Map.empty)"
    using check_reports_partial_failures
            [of "example_engine\<lparr>model_loaded := False\<rparr>" Map.empty 0 ?meds,
             THEN conjunct2, THEN conjunct1]
    by simp
  have down: "check (example_engine\<lparr>cache_reachable := False, cache_fallback := False\<rparr>) Map.empty 0 ?meds
                = (Inl CacheBackendError, Map.empty)"
    using check_reports_partial_failures
            [of "example_engine\<lparr>cache_reachable := False, cache_fallback := False\<rparr>" Map.empty 0 ?meds,
             THEN conjunct2, THEN conjunct2, THEN conjunct1]
    by (simp add: loaded)
  have pre: "model_loaded example_engine \<and> (cache_reachable example_engine \<or> cache_fallback example_engine)"
    using loaded reachable by simp
  note main = check_reports_partial_failures
                [of example_engine Map.empty 0 ?meds, THEN conjunct1, THEN mp, OF pre]
  from main obtain report cache'
    where "check example_engine Map.empty 0 ?meds = (Inr report, cache')"
    by (elim exE conjE) (rule that)
  then have "fst (check example_engine Map.empty 0 ?meds) = Inr report"
    by simp
  with ev loaded reachable fails nothing unloaded down show ?thesis
    by (simp add: nothing_to_serve_def del: resolve_pairs.simps)
qed

end
